theory Spec2Isabelle
  imports Main
begin

section \<open>stumfixer: a daemon that keeps the PulseAudio card profile in step with the monitor\<close>

text \<open>
  The development embeds \<^verbatim>\<open>stumfixer.py\<close>: the Python values the script computes with
  (text, decimal numbers, exceptions), the part of the operating system it touches (files,
  process ids, signals, child processes), each function of the script, and the way the
  interpreter ends a process.
\<close>

subsection \<open>Python text\<close>

text \<open>
  The texts the script computes with (command line, lines of \<^verbatim>\<open>pacmd\<close>, messages) are
  \<^typ>\<open>string\<close>s whose characters are the code points below 256. \<^verbatim>\<open>str.strip()\<close> drops
  the characters Python counts as white space: in this range the code points 9 to 13, 28 to
  32, 133 and 160.
\<close>

definition isspace :: "char \<Rightarrow> bool" where
  "isspace c = (of_char c \<in> set [9, 10, 11, 12, 13, 28, 29, 30, 31, 32, 133, 160 :: nat])"

definition strip :: "string \<Rightarrow> string" where
  "strip s = rev (dropWhile isspace (rev (dropWhile isspace s)))"

definition startswith :: "string \<Rightarrow> string \<Rightarrow> bool" where
  "startswith s p = (take (length p) s = p)"

text \<open>The slice \<^verbatim>\<open>s[n:-1]\<close>: from index \<open>n\<close> up to, and without, the last character.\<close>

definition slice_from_to_last :: "nat \<Rightarrow> string \<Rightarrow> string" where
  "slice_from_to_last n s = drop n (butlast s)"

text \<open>\<^verbatim>\<open>str(i)\<close> of an integer, which is also what \<^verbatim>\<open>print\<close> and \<^verbatim>\<open>"{}".format\<close> write.\<close>

definition digit_char :: "nat \<Rightarrow> char" where
  "digit_char d = char_of (48 + d)"

fun digits :: "nat \<Rightarrow> string" where
  "digits n = (if n < 10 then [digit_char n] else digits (n div 10) @ [digit_char (n mod 10)])"

declare digits.simps [simp del]

definition str_int :: "int \<Rightarrow> string" where
  "str_int i = (if i < 0 then CHR ''-'' # digits (nat (- i)) else digits (nat i))"

datatype error =
    SystemExit int
  | RuntimeError string
  | SystemError string
  | CalledProcessError int
  | OSError string
  | ValueError
  | AttributeError
  | IndexError
  | UnicodeDecodeError
  | OverflowError

text \<open>
  A text read from a file can hold any character, so it is a list of code points. The
  bytes of the file are decoded as UTF-8, the encoding of the locale: a byte below 128 is
  its own code point, a longer sequence is one lead byte and one to three continuation
  bytes, and a sequence that is too short, overlong, a surrogate or above \<open>0x10FFFF\<close> is a
  \<^verbatim>\<open>UnicodeDecodeError\<close> (\<open>None\<close> here).
\<close>

definition continuation :: "nat \<Rightarrow> bool" where
  "continuation b = (128 \<le> b \<and> b < 192)"

fun decode_utf8 :: "nat list \<Rightarrow> nat list option" where
  "decode_utf8 [] = Some []"
| "decode_utf8 (b0 # bs) =
     (if b0 < 128 then map_option ((#) b0) (decode_utf8 bs)
      else if 194 \<le> b0 \<and> b0 < 224 then
        (case bs of
           b1 # r \<Rightarrow>
             if continuation b1
             then map_option ((#) ((b0 - 192) * 64 + (b1 - 128))) (decode_utf8 r)
             else None
         | _ \<Rightarrow> None)
      else if 224 \<le> b0 \<and> b0 < 240 then
        (case bs of
           b1 # b2 # r \<Rightarrow>
             if continuation b1 \<and> continuation b2
                \<and> (if b0 = 224 then 160 \<le> b1 else if b0 = 237 then b1 < 160 else True)
             then map_option ((#) ((b0 - 224) * 4096 + (b1 - 128) * 64 + (b2 - 128)))
                    (decode_utf8 r)
             else None
         | _ \<Rightarrow> None)
      else if 240 \<le> b0 \<and> b0 < 245 then
        (case bs of
           b1 # b2 # b3 # r \<Rightarrow>
             if continuation b1 \<and> continuation b2 \<and> continuation b3
                \<and> (if b0 = 240 then 144 \<le> b1 else if b0 = 244 then b1 < 144 else True)
             then map_option
                    ((#) ((b0 - 240) * 262144 + (b1 - 128) * 4096 + (b2 - 128) * 64 + (b3 - 128)))
                    (decode_utf8 r)
             else None
         | _ \<Rightarrow> None)
      else None)"

text \<open>
  Reading in text mode also turns each \<^verbatim>\<open>\r\n\<close> and each remaining \<^verbatim>\<open>\r\<close> into \<^verbatim>\<open>\n\<close>.
\<close>

fun universal_newlines :: "nat list \<Rightarrow> nat list" where
  "universal_newlines [] = []"
| "universal_newlines [c] = [if c = 13 then 10 else c]"
| "universal_newlines (c # d # ds) =
     (if c = 13 \<and> d = 10 then 10 # universal_newlines ds
      else (if c = 13 then 10 else c) # universal_newlines (d # ds))"

text \<open>
  \<^verbatim>\<open>int(s)\<close> of a text: white space around it is dropped, one sign may lead, and the rest is
  decimal digits, where a single underscore may stand between two digits. Anything else is a
  \<^verbatim>\<open>ValueError\<close>. The white space of \<^verbatim>\<open>int\<close> is not that of \<^verbatim>\<open>str.strip()\<close>: below 128 it
  is the code points 9 to 13 and 32 only (28 to 31 are not skipped), above it is every
  Unicode space. A decimal digit is any character of the Unicode category Nd; these come in
  runs of ten, listed by their zeros (Unicode 14.0). The bound that recent interpreters put
  on the number of digits of such a conversion (4300 by default) is far above any process
  id and is left out.
\<close>

definition int_space :: "nat \<Rightarrow> bool" where
  "int_space c =
     (c \<in> set [9, 10, 11, 12, 13, 32, 133, 160, 5760, 8232, 8233, 8239, 8287, 12288]
      \<or> (8192 \<le> c \<and> c \<le> 8202))"

definition int_strip :: "nat list \<Rightarrow> nat list" where
  "int_strip s = rev (dropWhile int_space (rev (dropWhile int_space s)))"

definition decimal_zeros :: "nat list" where
  "decimal_zeros =
     [48, 1632, 1776, 1984, 2406, 2534, 2662, 2790, 2918, 3046, 3174, 3302, 3430, 3558,
      3664, 3792, 3872, 4160, 4240, 6112, 6160, 6470, 6608, 6784, 6800, 6992, 7088, 7232,
      7248, 42528, 43216, 43264, 43472, 43504, 43600, 44016, 65296, 66720, 68912, 69734,
      69872, 69942, 70096, 70384, 70736, 70864, 71248, 71360, 71472, 71904, 72016, 72784,
      73040, 73120, 92768, 92864, 93008, 120782, 120792, 120802, 120812, 120822, 123200,
      123632, 125264, 130032]"

definition digit_val :: "nat \<Rightarrow> nat option" where
  "digit_val c =
     (case List.find (\<lambda>z. z \<le> c \<and> c < z + 10) decimal_zeros of
        None \<Rightarrow> None
      | Some z \<Rightarrow> Some (c - z))"

fun parse_digits :: "nat \<Rightarrow> bool \<Rightarrow> nat list \<Rightarrow> nat option" where
  "parse_digits acc after_digit [] = (if after_digit then Some acc else None)"
| "parse_digits acc after_digit (c # cs) =
     (if c = 95 then (if after_digit then parse_digits acc False cs else None)
      else (case digit_val c of
              None \<Rightarrow> None
            | Some d \<Rightarrow> parse_digits (10 * acc + d) True cs))"

definition int_of_str :: "nat list \<Rightarrow> error + int" where
  "int_of_str s =
     (case int_strip s of
        [] \<Rightarrow> Inl ValueError
      | c # cs \<Rightarrow>
          if c = 45 then
            (case parse_digits 0 False cs of None \<Rightarrow> Inl ValueError | Some n \<Rightarrow> Inr (- int n))
          else if c = 43 then
            (case parse_digits 0 False cs of None \<Rightarrow> Inl ValueError | Some n \<Rightarrow> Inr (int n))
          else
            (case parse_digits 0 False (c # cs) of None \<Rightarrow> Inl ValueError | Some n \<Rightarrow> Inr (int n)))"

text \<open>
  \<^verbatim>\<open>repr(s)\<close> of a text, which \<^verbatim>\<open>{!r}\<close> writes: the text between single quotes, or between
  double quotes when it holds a single quote and no double quote; the backslash and the
  chosen quote are escaped, tab, newline and carriage return are written \<^verbatim>\<open>\t\<close>, \<^verbatim>\<open>\n\<close>
  and \<^verbatim>\<open>\r\<close>, and every other code point that is not printable is written \<^verbatim>\<open>\xhh\<close>.
\<close>

definition hex_char :: "nat \<Rightarrow> char" where
  "hex_char d = (if d < 10 then char_of (48 + d) else char_of (87 + d))"

definition isprintable :: "char \<Rightarrow> bool" where
  "isprintable c = (let n = (of_char c :: nat) in
     (32 \<le> n \<and> n < 127) \<or> (161 \<le> n \<and> n \<noteq> 173))"

definition repr_char :: "char \<Rightarrow> char \<Rightarrow> string" where
  "repr_char quote c =
     (if c = quote \<or> c = CHR 0x5C then [CHR 0x5C, c]
      else if c = CHR 0x09 then [CHR 0x5C, CHR ''t'']
      else if c = CHR 0x0A then [CHR 0x5C, CHR ''n'']
      else if c = CHR 0x0D then [CHR 0x5C, CHR ''r'']
      else if isprintable c then [c]
      else [CHR 0x5C, CHR ''x'', hex_char (of_char c div 16), hex_char (of_char c mod 16)])"

definition repr :: "string \<Rightarrow> string" where
  "repr s =
     (let quote = (if CHR 0x27 \<in> set s \<and> CHR 0x22 \<notin> set s then CHR 0x22 else CHR 0x27)
      in quote # concat (map (repr_char quote) s) @ [quote])"

subsection \<open>The process and the operating system around it\<close>

datatype signal = SIGTERM

text \<open>
  What the process does on a signal: the system's default (the process is ended at once,
  nothing of the interpreter runs) or the handler that \<^verbatim>\<open>daemonize\<close> defines.
\<close>

datatype disposition = SIG_DFL | Handler_sigterm

text \<open>The one callback the script registers with \<^verbatim>\<open>atexit\<close>: \<^verbatim>\<open>lambda: os.remove(pidfile)\<close>.\<close>

datatype callback = Remove string

text \<open>
  The state follows one process. \<open>files\<close> is the file system (path to content), shared with
  every other process. \<open>out\<close> and \<open>err\<close> are the texts this process has written to
  \<^verbatim>\<open>sys.stdout\<close> and \<^verbatim>\<open>sys.stderr\<close>, oldest first; both streams are buffered, so what has
  been written to a stream and what the file behind it holds are kept apart.
  \<open>stdin_from\<close>, \<open>stdout_to\<close> and \<open>stderr_to\<close> are the files the three descriptors were
  redirected to (\<open>None\<close>: as inherited). \<open>pgid\<close> is the process group of the process. \<open>tracebacks\<close> are the exceptions the interpreter
  itself reported, \<open>spawned\<close> the command lines of the children started with
  \<^verbatim>\<open>subprocess.Popen\<close>, \<open>signalled\<close> the targets the system accepted from \<^verbatim>\<open>os.kill\<close>, and
  \<open>exited\<close> the processes that have ended, with their exit codes.
\<close>

record world =
  files :: "string \<rightharpoonup> string"
  pid :: int
  out :: "string list"
  err :: "string list"
  tracebacks :: "error list"
  stdin_from :: "string option"
  stdout_to :: "string option"
  stderr_to :: "string option"
  cwd :: string
  umask :: nat
  session_leader :: bool
  pgid :: int
  atexit :: "callback list"
  on_sigterm :: disposition
  spawned :: "string list list"
  signalled :: "(int \<times> signal) list"
  exited :: "(int \<times> int) list"

text \<open>
  A statement of the script takes the state and gives the state after it, with either the
  value it computed or the exception it raised.
\<close>

type_synonym 'a prog = "world \<Rightarrow> (error + 'a) \<times> world"

definition ret :: "'a \<Rightarrow> 'a prog" where
  "ret a w = (Inr a, w)"

definition raise :: "error \<Rightarrow> 'a prog" where
  "raise e w = (Inl e, w)"

definition bind :: "'a prog \<Rightarrow> ('a \<Rightarrow> 'b prog) \<Rightarrow> 'b prog" where
  "bind m f w = (case m w of (Inl e, w') \<Rightarrow> (Inl e, w') | (Inr a, w') \<Rightarrow> f a w')"

definition seq :: "unit prog \<Rightarrow> 'b prog \<Rightarrow> 'b prog" where
  "seq m n = bind m (\<lambda>_. n)"

text \<open>
  \<^verbatim>\<open>try: m except ...\<close>: the clauses are a function that gives the handler's body for the
  exceptions they catch and \<open>None\<close> for those they let through.
\<close>

definition try_except :: "'a prog \<Rightarrow> (error \<Rightarrow> 'a prog option) \<Rightarrow> 'a prog" where
  "try_except m clauses w =
     (case m w of
        (Inl e, w') \<Rightarrow> (case clauses e of None \<Rightarrow> (Inl e, w') | Some h \<Rightarrow> h w')
      | (Inr a, w') \<Rightarrow> (Inr a, w'))"

text \<open>
  The file system has no directories and no permissions: reading or removing a file fails
  when it is absent (\<^verbatim>\<open>FileNotFoundError\<close>, an \<^verbatim>\<open>OSError\<close> with \<^verbatim>\<open>ENOENT\<close>), and opening
  a file to write or append creates it. A file holds bytes. The texts the script writes
  are ASCII, so under UTF-8 their bytes are their characters.
\<close>

definition path_exists :: "string \<Rightarrow> world \<Rightarrow> bool" where
  "path_exists p w = (files w p \<noteq> None)"

text \<open>\<^verbatim>\<open>open(p, "rb", 0)\<close>: the file is opened for its bytes; the script reads none of them.\<close>

definition open_rb :: "string \<Rightarrow> unit prog" where
  "open_rb p w = (case files w p of None \<Rightarrow> (Inl (OSError ''ENOENT''), w) | Some c \<Rightarrow> (Inr (), w))"

text \<open>\<^verbatim>\<open>open(p).read()\<close>: the whole file as text, decoded, with the newlines translated.\<close>

definition read_text :: "string \<Rightarrow> nat list prog" where
  "read_text p w =
     (case files w p of
        None \<Rightarrow> (Inl (OSError ''ENOENT''), w)
      | Some c \<Rightarrow>
          (case decode_utf8 (map of_char c) of
             None \<Rightarrow> (Inl UnicodeDecodeError, w)
           | Some t \<Rightarrow> (Inr (universal_newlines t), w)))"

definition open_append :: "string \<Rightarrow> unit prog" where
  "open_append p w =
     (case files w p of
        None \<Rightarrow> (Inr (), w\<lparr>files := (files w)(p \<mapsto> [])\<rparr>)
      | Some c \<Rightarrow> (Inr (), w))"

definition write_file :: "string \<Rightarrow> string \<Rightarrow> unit prog" where
  "write_file p c w = (Inr (), w\<lparr>files := (files w)(p \<mapsto> c)\<rparr>)"

definition truncate_file :: "string \<Rightarrow> unit prog" where
  "truncate_file p w = (Inr (), w\<lparr>files := (files w)(p \<mapsto> [])\<rparr>)"

definition getsize :: "string \<Rightarrow> nat prog" where
  "getsize p w = (case files w p of None \<Rightarrow> (Inl (OSError ''ENOENT''), w) | Some c \<Rightarrow> (Inr (length c), w))"

definition os_remove :: "string \<Rightarrow> unit prog" where
  "os_remove p w =
     (case files w p of
        None \<Rightarrow> (Inl (OSError ''ENOENT''), w)
      | Some c \<Rightarrow> (Inr (), w\<lparr>files := (files w)(p := None)\<rparr>))"

text \<open>
  The callbacks registered with \<^verbatim>\<open>atexit\<close>, run in the given order; an exception in a
  callback is reported and the next callback runs.
\<close>

fun run_callbacks :: "callback list \<Rightarrow> world \<Rightarrow> world" where
  "run_callbacks [] w = w"
| "run_callbacks (Remove p # cbs) w =
     (case os_remove p w of
        (Inl e, w') \<Rightarrow> run_callbacks cbs (w'\<lparr>tracebacks := tracebacks w' @ [e]\<rparr>)
      | (Inr _, w') \<Rightarrow> run_callbacks cbs w')"

definition stdout_write :: "string \<Rightarrow> unit prog" where
  "stdout_write s w = (Inr (), w\<lparr>out := out w @ [s]\<rparr>)"

text \<open>\<^verbatim>\<open>print(s, file=sys.stderr)\<close> writes the text and a newline.\<close>

definition print_stderr :: "string \<Rightarrow> unit prog" where
  "print_stderr s w = (Inr (), w\<lparr>err := err w @ [s @ ''\<newline>'']\<rparr>)"

text \<open>
  \<^verbatim>\<open>os.fork()\<close>. Whether the system can make the child, and the child's id, come from
  outside. The model follows the child: the call returns 0 there, the child has the new id,
  stays in the process group of its parent and leads no session. In the parent the call returns the child's id, which is above 0,
  and in both places where the script forks the parent then raises \<^verbatim>\<open>SystemExit(0)\<close>: the
  parent is entered in \<open>exited\<close> with code 0, and the callbacks it had registered have run
  on the file system.
\<close>

datatype fork_outcome = ForkFails | ForkChild int

definition os_fork :: "fork_outcome \<Rightarrow> int prog" where
  "os_fork f w =
     (case f of
        ForkFails \<Rightarrow> (Inl (OSError ''EAGAIN''), w)
      | ForkChild c \<Rightarrow>
          (Inr 0, w\<lparr>files := files (run_callbacks (rev (atexit w)) w), pid := c,
                      session_leader := False, exited := exited w @ [(pid w, 0)]\<rparr>))"

definition os_chdir :: "string \<Rightarrow> unit prog" where
  "os_chdir d w = (Inr (), w\<lparr>cwd := d\<rparr>)"

definition os_umask :: "nat \<Rightarrow> unit prog" where
  "os_umask m w = (Inr (), w\<lparr>umask := m\<rparr>)"

definition os_setsid :: "unit prog" where
  "os_setsid w = (Inr (), w\<lparr>session_leader := True, pgid := pid w\<rparr>)"

definition atexit_register :: "callback \<Rightarrow> unit prog" where
  "atexit_register cb w = (Inr (), w\<lparr>atexit := atexit w @ [cb]\<rparr>)"

definition signal_signal :: "signal \<Rightarrow> disposition \<Rightarrow> unit prog" where
  "signal_signal sg d w = (case sg of SIGTERM \<Rightarrow> (Inr (), w\<lparr>on_sigterm := d\<rparr>))"

text \<open>
  \<^verbatim>\<open>subprocess.Popen(argv, stdout=PIPE)\<close> starts the child and does not wait for it. When
  the program cannot be started it raises an \<^verbatim>\<open>OSError\<close>; it never raises
  \<^verbatim>\<open>CalledProcessError\<close>. Whether the program starts comes from outside.
\<close>

definition Popen :: "bool \<Rightarrow> string list \<Rightarrow> unit prog" where
  "Popen starts argv w =
     (if starts then (Inr (), w\<lparr>spawned := spawned w @ [argv]\<rparr>)
      else (Inl (OSError ''ENOENT''), w))"

definition time_sleep :: "nat \<Rightarrow> unit prog" where
  "time_sleep n w = (Inr (), w)"

subsection \<open>What comes from outside while the script runs\<close>

text \<open>
  The output of \<^verbatim>\<open>pacmd list-cards\<close> is the list of the results of \<^verbatim>\<open>readline\<close>, each with
  the outcome of \<^verbatim>\<open>decode("utf-8")\<close> (\<open>None\<close>: the bytes are not valid UTF-8).
\<close>

datatype popen_outcome = CannotStart | Started "string option list"

text \<open>
  One pass of the loop in \<^verbatim>\<open>main\<close> meets: the result of starting \<^verbatim>\<open>pacmd list-cards\<close>,
  whether \<^verbatim>\<open>pacmd set-card-profile\<close> can be started, and the two readings of
  \<^verbatim>\<open>time.ctime()\<close>, in \<^verbatim>\<open>switch_audio_to\<close> and in \<^verbatim>\<open>check_log_file_size\<close>.
\<close>

record tick =
  list_cards :: popen_outcome
  set_profile_starts :: bool
  ctime_switch :: string
  ctime_clean :: string

text \<open>
  While the daemon runs, three things happen: a pass of its loop, the arrival of the
  termination signal (with the reading of \<^verbatim>\<open>time.ctime()\<close> at that moment), and bytes
  reaching the log file (buffered output of the daemon, or any other writer). In the loop
  the signal is taken between two passes. For a run of the script the outside also gives
  the outcome of the two forks, the reading of the clock at the start of \<^verbatim>\<open>main\<close>, which
  calls of \<^verbatim>\<open>os.kill\<close> the system accepts, and the reading of the clock should a signal
  sent by \<^verbatim>\<open>os.kill\<close> come back to the sender.
\<close>

datatype event = Iteration tick | Sigterm string | LogGrows string

record env =
  fork1 :: fork_outcome
  fork2 :: fork_outcome
  ctime_start :: string
  events :: "event list"
  kill_accepts :: "int \<Rightarrow> bool"
  ctime_kill :: string

subsection \<open>The script\<close>

definition PIDFILE :: string where
  "PIDFILE = ''/tmp/stumfixer.pid''"

definition LOGFILE :: string where
  "LOGFILE = ''/tmp/stumfixer.log''"

definition MAXLOGSIZE :: nat where
  "MAXLOGSIZE = 1000000"

text \<open>The body of the handler that \<^verbatim>\<open>daemonize\<close> installs for the termination signal.\<close>

definition sigterm_handler :: "string \<Rightarrow> unit prog" where
  "sigterm_handler now =
     seq (stdout_write (now @ '': Quitting daemon\<newline>'')) (raise (SystemExit 1))"

text \<open>
  How a piece of the script stands: it came to its end, an exception is on its way out, the
  loop of \<^verbatim>\<open>main\<close> is still turning (the events are used up), or the system ended the
  process on a signal it had no handler for.
\<close>

datatype outcome = Returned | Raised error | StillLooping | Killed

text \<open>
  The termination signal reaches the process: with the default disposition the system ends
  the process there and then; with the handler installed, the handler runs in the middle
  of whatever the script was doing.
\<close>

definition receive_sigterm :: "string \<Rightarrow> world \<Rightarrow> outcome \<times> world" where
  "receive_sigterm now w =
     (case on_sigterm w of
        SIG_DFL \<Rightarrow> (Killed, w)
      | Handler_sigterm \<Rightarrow>
          (case sigterm_handler now w of
             (Inl e, w') \<Rightarrow> (Raised e, w')
           | (Inr _, w') \<Rightarrow> (Returned, w')))"

text \<open>
  \<^verbatim>\<open>os.kill(p, sig)\<close>, on Linux. An id that does not fit a C \<^verbatim>\<open>int\<close> is an
  \<^verbatim>\<open>OverflowError\<close>. Whether the system accepts the call (a target exists and may be
  signalled) comes from outside. The target is entered in \<open>signalled\<close> as given: an id above
  0 is that one process, 0 is every process of the caller's group, \<open>-1\<close> is every process
  the caller may signal except the caller, and another negative id is the process group of
  that number. When the caller is among the targets, the signal reaches the caller too.
\<close>

definition signals_caller :: "int \<Rightarrow> world \<Rightarrow> bool" where
  "signals_caller p w = (p = pid w \<or> p = 0 \<or> (p < - 1 \<and> - p = pgid w))"

definition os_kill :: "(int \<Rightarrow> bool) \<Rightarrow> string \<Rightarrow> int \<Rightarrow> signal \<Rightarrow> world \<Rightarrow> outcome \<times> world" where
  "os_kill accepts now p sg w =
     (if p < - 2147483648 \<or> 2147483647 < p then (Raised OverflowError, w)
      else if accepts p then
        (if signals_caller p w
         then receive_sigterm now (w\<lparr>signalled := signalled w @ [(p, sg)]\<rparr>)
         else (Returned, w\<lparr>signalled := signalled w @ [(p, sg)]\<rparr>))
      else (Raised (OSError ''ESRCH''), w))"

text \<open>
  \<^verbatim>\<open>daemonize(pidfile, stdin, stdout, stderr)\<close>. \<^verbatim>\<open>exit(1)\<close> raises \<^verbatim>\<open>SystemExit(1)\<close>.
  Flushing the two streams changes nothing in the state. The three descriptors are
  replaced in turn, then the process id is printed into the pid file, the removal of the
  file is registered with \<^verbatim>\<open>atexit\<close>, and the handler is installed. The function is given in
  two parts: all of it up to the registration with \<^verbatim>\<open>atexit\<close> (lines 18 to 54), and then the
  whole, which adds the call of \<^verbatim>\<open>signal.signal\<close> (line 61).
\<close>

definition fork_or_exit :: "fork_outcome \<Rightarrow> string \<Rightarrow> unit prog" where
  "fork_or_exit f msg =
     try_except
       (bind (os_fork f) (\<lambda>r. if r > 0 then raise (SystemExit 0) else ret ()))
       (\<lambda>e. case e of OSError _ \<Rightarrow> Some (raise (RuntimeError msg)) | _ \<Rightarrow> None)"

definition daemonize_upto_atexit :: "env \<Rightarrow> string \<Rightarrow> string \<Rightarrow> string \<Rightarrow> string \<Rightarrow> unit prog" where
  "daemonize_upto_atexit ev pidfile stdin stdout stderr w =
     (if path_exists pidfile w then raise (SystemExit 1) w
      else
       (seq (fork_or_exit (fork1 ev) ''fork #1 failed.'')
       (seq (os_chdir ''/'')
       (seq (os_umask 0)
       (seq os_setsid
       (seq (fork_or_exit (fork2 ev) ''fork #2 failed.'')
       (seq (seq (open_rb stdin) (\<lambda>w. (Inr (), w\<lparr>stdin_from := Some stdin\<rparr>)))
       (seq (seq (open_append stdout) (\<lambda>w. (Inr (), w\<lparr>stdout_to := Some stdout\<rparr>)))
       (seq (seq (open_append stderr) (\<lambda>w. (Inr (), w\<lparr>stderr_to := Some stderr\<rparr>)))
       (seq (\<lambda>w. write_file pidfile (str_int (pid w) @ ''\<newline>'') w)
            (atexit_register (Remove pidfile))))))))))) w)"

definition daemonize :: "env \<Rightarrow> string \<Rightarrow> string \<Rightarrow> string \<Rightarrow> string \<Rightarrow> unit prog" where
  "daemonize ev pidfile stdin stdout stderr =
     seq (daemonize_upto_atexit ev pidfile stdin stdout stderr)
         (signal_signal SIGTERM Handler_sigterm)"

text \<open>\<^verbatim>\<open>switch_audio_to(active, name)\<close>, with the reading of the clock and whether \<^verbatim>\<open>pacmd\<close> starts.\<close>

definition switch_audio_to :: "string \<Rightarrow> bool \<Rightarrow> string \<Rightarrow> string \<Rightarrow> unit prog" where
  "switch_audio_to now starts active name =
     (if active = name then ret ()
      else
        seq (stdout_write (now @ '': Setting card profile to '' @ name @ ''\<newline>''))
            (try_except
               (Popen starts [''pacmd'', ''set-card-profile'', ''0'', name])
               (\<lambda>e. case e of
                       CalledProcessError rc \<Rightarrow>
                         Some (raise (SystemError (''Could not run pacmd list-cards ('' @ str_int rc @ '')'')))
                     | _ \<Rightarrow> None)))"

text \<open>
  The loop of \<^verbatim>\<open>get_audio_info\<close> over the lines: an empty result of \<^verbatim>\<open>readline\<close> is the end
  of the output; each line is decoded and stripped; a line that starts with
  \<^verbatim>\<open>active profile\<close> sets the profile to \<^verbatim>\<open>line[17:-1]\<close>, else one that starts with
  \<^verbatim>\<open>device.product.name\<close> sets the product to \<^verbatim>\<open>line[23:-1]\<close>.
\<close>

fun read_lines :: "string option list \<Rightarrow> string option \<Rightarrow> string option
    \<Rightarrow> error + string option \<times> string option" where
  "read_lines [] active_profile product = Inr (active_profile, product)"
| "read_lines (None # ls) active_profile product = Inl UnicodeDecodeError"
| "read_lines (Some raw # ls) active_profile product =
     (if raw = [] then Inr (active_profile, product)
      else (let line = strip raw in
        if startswith line ''active profile''
          then read_lines ls (Some (slice_from_to_last 17 line)) product
        else if startswith line ''device.product.name''
          then read_lines ls active_profile (Some (slice_from_to_last 23 line))
        else read_lines ls active_profile product))"

definition get_audio_info :: "popen_outcome \<Rightarrow> (string \<times> string option) prog" where
  "get_audio_info po =
     bind (try_except
             (case po of
                CannotStart \<Rightarrow> bind (Popen False [''pacmd'', ''list-cards'']) (\<lambda>_. ret [])
              | Started ls \<Rightarrow> bind (Popen True [''pacmd'', ''list-cards'']) (\<lambda>_. ret ls))
             (\<lambda>e. case e of
                     CalledProcessError rc \<Rightarrow>
                       Some (raise (SystemError (''Could not run pacmd list-cards ('' @ str_int rc @ '')'')))
                   | _ \<Rightarrow> None))
       (\<lambda>ls. case read_lines ls None None of
                Inl e \<Rightarrow> raise e
              | Inr (None, product) \<Rightarrow> raise (SystemError ''Active profile is none'')
              | Inr (Some active_profile, product) \<Rightarrow> ret (active_profile, product))"

definition check_log_file_size :: "string \<Rightarrow> unit prog" where
  "check_log_file_size now =
     bind (getsize LOGFILE) (\<lambda>size.
       if size > MAXLOGSIZE then
         seq (seq (open_append LOGFILE) (truncate_file LOGFILE))
             (stdout_write (now @ '': Cleaning up log file!\<newline>''))
       else ret ())"

text \<open>
  One pass of the loop of \<^verbatim>\<open>main\<close>. \<^verbatim>\<open>product.startswith\<close> on \<^verbatim>\<open>None\<close> raises
  \<^verbatim>\<open>AttributeError\<close>.
\<close>

definition iteration :: "tick \<Rightarrow> unit prog" where
  "iteration t =
     bind (get_audio_info (list_cards t)) (\<lambda>(active_profile, product).
       seq (case product of
              None \<Rightarrow> raise AttributeError
            | Some p \<Rightarrow>
                if startswith p ''DELL'' then
                  switch_audio_to (ctime_switch t) (set_profile_starts t) active_profile
                    ''output:analog-stereo+input:analog-stereo''
                else if startswith p ''BenQ'' then
                  switch_audio_to (ctime_switch t) (set_profile_starts t) active_profile
                    ''output:hdmi-stereo''
                else
                  switch_audio_to (ctime_switch t) (set_profile_starts t) active_profile
                    ''output:analog-stereo+input:analog-stereo'')
        (seq (check_log_file_size (ctime_clean t)) (time_sleep 5)))"

definition append_file :: "string \<Rightarrow> string \<Rightarrow> world \<Rightarrow> world" where
  "append_file p s w =
     (case files w p of None \<Rightarrow> w | Some c \<Rightarrow> w\<lparr>files := (files w)(p \<mapsto> c @ s)\<rparr>)"

fun main_loop :: "event list \<Rightarrow> world \<Rightarrow> outcome \<times> world" where
  "main_loop [] w = (StillLooping, w)"
| "main_loop (Iteration t # es) w =
     (case iteration t w of
        (Inl e, w') \<Rightarrow> (Raised e, w')
      | (Inr _, w') \<Rightarrow> main_loop es w')"
| "main_loop (Sigterm now # es) w =
     (case receive_sigterm now w of
        (Returned, w') \<Rightarrow> main_loop es w'
      | (x, w') \<Rightarrow> (x, w'))"
| "main_loop (LogGrows s # es) w = main_loop es (append_file LOGFILE s w)"

definition main :: "env \<Rightarrow> world \<Rightarrow> outcome \<times> world" where
  "main ev w =
     (case stdout_write (ctime_start ev @ '': Stumfixer daemon started with pid=''
                          @ str_int (pid w) @ ''\<newline>'') w of
        (Inl e, w') \<Rightarrow> (Raised e, w')
      | (Inr _, w') \<Rightarrow> main_loop (events ev) w')"

text \<open>The block under \<^verbatim>\<open>if __name__ == "__main__"\<close>, for the command line \<open>argv\<close>.\<close>

definition stop :: "env \<Rightarrow> world \<Rightarrow> outcome \<times> world" where
  "stop ev w =
     (if path_exists PIDFILE w then
        (case read_text PIDFILE w of
           (Inl e, w') \<Rightarrow> (Raised e, w')
         | (Inr content, w') \<Rightarrow>
             (case int_of_str content of
                Inl e \<Rightarrow> (Raised e, w')
              | Inr p \<Rightarrow> os_kill (kill_accepts ev) (ctime_kill ev) p SIGTERM w'))
      else
        (case (seq (print_stderr ''Not running'') (raise (SystemExit 1)) :: unit prog) w of
           (Inl e, w') \<Rightarrow> (Raised e, w')
         | (Inr _, w') \<Rightarrow> (Returned, w')))"

definition script :: "string list \<Rightarrow> env \<Rightarrow> world \<Rightarrow> outcome \<times> world" where
  "script argv ev w =
     (if length argv \<noteq> 2 then
        (case argv of
           [] \<Rightarrow> (Raised IndexError, w)
         | a0 # _ \<Rightarrow>
             (case (seq (print_stderr (''Usage: '' @ a0 @ '' [start|stop]'')) (raise (SystemExit 1)) :: unit prog) w of
                (Inl e, w') \<Rightarrow> (Raised e, w')
              | (Inr _, w') \<Rightarrow> (Returned, w')))
      else if argv ! 1 = ''start'' then
        (case try_except (daemonize ev PIDFILE ''/dev/null'' LOGFILE LOGFILE)
                (\<lambda>e. case e of
                        RuntimeError m \<Rightarrow> Some (seq (print_stderr m) (raise (SystemExit 1)))
                      | _ \<Rightarrow> None) w of
           (Inl e, w') \<Rightarrow> (Raised e, w')
         | (Inr _, w') \<Rightarrow> main ev w')
      else if argv ! 1 = ''stop'' then stop ev w
      else
        (case (seq (print_stderr (''Unknown command '' @ repr (argv ! 1))) (raise (SystemExit 1)) :: unit prog) w of
           (Inl e, w') \<Rightarrow> (Raised e, w')
         | (Inr _, w') \<Rightarrow> (Returned, w')))"

text \<open>
  The \<^verbatim>\<open>start\<close> branch when the termination signal reaches the process after the removal
  of the pid file is registered (line 54) and before \<^verbatim>\<open>signal.signal\<close> is called (line 61).
\<close>

definition start_signalled_early :: "env \<Rightarrow> string \<Rightarrow> world \<Rightarrow> outcome \<times> world" where
  "start_signalled_early ev now w =
     (case try_except (daemonize_upto_atexit ev PIDFILE ''/dev/null'' LOGFILE LOGFILE)
             (\<lambda>e. case e of
                     RuntimeError m \<Rightarrow> Some (seq (print_stderr m) (raise (SystemExit 1)))
                   | _ \<Rightarrow> None) w of
        (Inl e, w') \<Rightarrow> (Raised e, w')
      | (Inr _, w') \<Rightarrow> receive_sigterm now w')"

subsection \<open>How the interpreter ends the process\<close>

text \<open>
  At the end of the process the interpreter runs the registered callbacks, the last
  registered first. \<^verbatim>\<open>SystemExit(n)\<close> ends the process with code \<open>n\<close> and prints nothing;
  any other exception that nothing caught is reported and the code is 1; the end of the
  script gives code 0. A process that the system ended on a signal runs nothing.
\<close>

datatype status = Running | Exited int | KilledBySignal

definition py_exit :: "int \<Rightarrow> world \<Rightarrow> status \<times> world" where
  "py_exit code w =
     (let w' = run_callbacks (rev (atexit w)) w
      in (Exited code, w'\<lparr>atexit := [], exited := exited w' @ [(pid w', code)]\<rparr>))"

fun finish :: "outcome \<times> world \<Rightarrow> status \<times> world" where
  "finish (StillLooping, w) = (Running, w)"
| "finish (Killed, w) = (KilledBySignal, w)"
| "finish (Returned, w) = py_exit 0 w"
| "finish (Raised (SystemExit n), w) = py_exit n w"
| "finish (Raised e, w) = py_exit 1 (w\<lparr>tracebacks := tracebacks w @ [e]\<rparr>)"

definition run :: "string list \<Rightarrow> env \<Rightarrow> world \<Rightarrow> status \<times> world" where
  "run argv ev w = finish (script argv ev w)"

subsection \<open>Sample inputs\<close>

text \<open>
  A process as an interactive shell starts it: process id \<open>p\<close>, in a process group of its
  own, the file system holding the listed files, nothing written, nothing registered, the
  default disposition for the signal.
\<close>

definition boot :: "(string \<times> string) list \<Rightarrow> int \<Rightarrow> world" where
  "boot fs p =
     \<lparr>files = map_of fs, pid = p, out = [], err = [], tracebacks = [], stdin_from = None,
      stdout_to = None, stderr_to = None, cwd = ''/home'', umask = 18, session_leader = False,
      pgid = p, atexit = [], on_sigterm = SIG_DFL, spawned = [], signalled = [], exited = []\<rparr>"

definition accept_all :: "int \<Rightarrow> bool" where
  "accept_all p = True"

text \<open>Both forks succeed, with children 4243 and 4244; what happens afterwards is \<open>es\<close>.\<close>

definition calm :: "event list \<Rightarrow> env" where
  "calm es =
     \<lparr>fork1 = ForkChild 4243, fork2 = ForkChild 4244,
      ctime_start = ''Wed Nov  4 12:00:00 2026'', events = es, kill_accepts = accept_all,
      ctime_kill = ''Wed Nov  4 12:02:00 2026''\<rparr>"

text \<open>A card on the analog profile next to a BenQ monitor, as \<^verbatim>\<open>pacmd list-cards\<close> prints it.\<close>

definition benq_on_analog :: "string option list" where
  \<open>benq_on_analog =
     [Some ''1 card(s) available.\<newline>'',
      Some ''    active profile: <output:analog-stereo+input:analog-stereo>\<newline>'',
      Some ''        device.product.name = "BenQ GW2765"\<newline>'']\<close>

text \<open>The lines when no card is listed, and a card whose properties name no product.\<close>

text \<open>A card already on the HDMI profile next to a BenQ monitor.\<close>

definition benq_on_hdmi :: "string option list" where
  \<open>benq_on_hdmi =
     [Some ''1 card(s) available.\<newline>'',
      Some ''    active profile: <output:hdmi-stereo>\<newline>'',
      Some ''        device.product.name = "BenQ GW2765"\<newline>'']\<close>

definition no_card :: "string option list" where
  "no_card = [Some ''0 card(s) available.\<newline>'']"

definition card_without_product :: "string option list" where
  "card_without_product =
     [Some ''1 card(s) available.\<newline>'',
      Some ''    active profile: <output:hdmi-stereo>\<newline>'']"

definition pass :: "string option list \<Rightarrow> bool \<Rightarrow> tick" where
  "pass ls starts =
     \<lparr>list_cards = Started ls, set_profile_starts = starts,
      ctime_switch = ''Wed Nov  4 12:00:05 2026'', ctime_clean = ''Wed Nov  4 12:00:06 2026''\<rparr>"

text \<open>The daemon right after \<^verbatim>\<open>daemonize\<close>, started as process 4242 where only the null device exists.\<close>

definition daemon0 :: world where
  "daemon0 = snd (daemonize (calm []) PIDFILE ''/dev/null'' LOGFILE LOGFILE
                    (boot [(''/dev/null'', [])] 4242))"

subsection \<open>Notions used in the statements\<close>

text \<open>
  The profile that \<^verbatim>\<open>main\<close> asks for, given the product: the second argument of the call of
  \<^verbatim>\<open>switch_audio_to\<close> in each of the three branches.
\<close>

definition desired :: "string \<Rightarrow> string" where
  "desired p =
     (if startswith p ''DELL'' then ''output:analog-stereo+input:analog-stereo''
      else if startswith p ''BenQ'' then ''output:hdmi-stereo''
      else ''output:analog-stereo+input:analog-stereo'')"

text \<open>
  The daemon is armed when the handler is installed, the removal of the pid file is
  registered, and the pid file exists: the state \<^verbatim>\<open>daemonize\<close> leaves behind.
\<close>

definition armed :: "world \<Rightarrow> bool" where
  "armed w =
     (on_sigterm w = Handler_sigterm \<and> Remove PIDFILE \<in> set (atexit w) \<and> path_exists PIDFILE w)"

section \<open>Properties\<close>

lemmas prog_defs = ret_def raise_def bind_def seq_def try_except_def

lemmas os_defs = os_fork_def os_chdir_def os_umask_def os_setsid_def open_rb_def
  open_append_def write_file_def atexit_register_def signal_signal_def

subsection \<open>Decimal numbers: printing, then reading\<close>

lemma of_char_digit_char: "d < 10 \<Longrightarrow> (of_char (digit_char d) :: nat) = 48 + d"
  by (simp add: digit_char_def)

lemma digit_val_ascii: "d < 10 \<Longrightarrow> digit_val (48 + d) = Some d"
  by (simp add: digit_val_def decimal_zeros_def)

lemma ascii_digit_plain:
  assumes "d < 10"
  shows "48 + d \<noteq> (95::nat)" and "48 + d \<noteq> (45::nat)" and "48 + d \<noteq> (43::nat)"
    and "\<not> int_space (48 + d)" and "48 + d < (128::nat)" and "48 + d \<noteq> (13::nat)"
  using assms by (auto simp: int_space_def)

lemma parse_digits_snoc:
  "parse_digits acc b xs = Some v \<Longrightarrow> d < 10 \<Longrightarrow>
   parse_digits acc b (xs @ [48 + d]) = Some (10 * v + d)"
proof (induction xs arbitrary: acc b)
  case Nil
  then show ?case
    by (simp add: digit_val_ascii split: if_splits)
next
  case (Cons c cs)
  then show ?case
    by (auto split: if_splits option.splits)
qed

lemma parse_digits_digits: "parse_digits 0 False (map of_char (digits n)) = Some n"
proof (induction n rule: digits.induct)
  case (1 n)
  show ?case
  proof (cases "n < 10")
    case True
    then show ?thesis
      by (subst digits.simps) (simp add: digit_val_ascii of_char_digit_char)
  next
    case False
    with 1 have "parse_digits 0 False (map of_char (digits (n div 10))) = Some (n div 10)" by simp
    then have "parse_digits 0 False (map of_char (digits (n div 10)) @ [48 + n mod 10])
        = Some (10 * (n div 10) + n mod 10)"
      by (rule parse_digits_snoc) simp
    with False show ?thesis
      by (subst digits.simps) (simp add: of_char_digit_char)
  qed
qed

lemma digits_chars: "c \<in> set (digits n) \<Longrightarrow> \<exists>d<10. c = digit_char d"
proof (induction n rule: digits.induct)
  case (1 n)
  show ?case
  proof (cases "n < 10")
    case True
    with 1(2) show ?thesis
      by (subst (asm) digits.simps) auto
  next
    case False
    from 1(2) False have "c \<in> set (digits (n div 10)) \<or> c = digit_char (n mod 10)"
      by (subst (asm) digits.simps) auto
    then show ?thesis
    proof
      assume "c \<in> set (digits (n div 10))"
      with 1(1) False show ?thesis by simp
    next
      assume "c = digit_char (n mod 10)"
      moreover have "n mod 10 < 10" by simp
      ultimately show ?thesis by blast
    qed
  qed
qed

lemma digits_points: "c \<in> set (map of_char (digits n)) \<Longrightarrow> \<exists>d<10. c = 48 + (d::nat)"
  by (auto dest!: digits_chars simp: of_char_digit_char)

lemma digits_not_Nil: "digits n \<noteq> []"
  by (subst digits.simps) simp

lemma decode_utf8_ascii: "\<forall>b \<in> set bs. b < 128 \<Longrightarrow> decode_utf8 bs = Some bs"
  by (induction bs) auto

lemma universal_newlines_plain: "13 \<notin> set cs \<Longrightarrow> universal_newlines cs = cs"
  by (induction cs rule: universal_newlines.induct) auto

lemma int_strip_line:
  assumes ne: "s \<noteq> []" and ns: "\<forall>c \<in> set s. \<not> int_space c"
  shows "int_strip (s @ [10]) = s"
proof -
  from ne ns have h: "\<not> int_space (hd s)" and l: "\<not> int_space (last s)" by auto
  from ne h have a: "dropWhile int_space (s @ [10]) = s @ [10]"
    by (cases s) auto
  have nl: "int_space 10" by (simp add: int_space_def)
  from ne l have "dropWhile int_space (rev s) = rev s"
    by (cases s rule: rev_cases) auto
  with nl a show ?thesis by (simp add: int_strip_def)
qed

lemma str_int_points:
  "map of_char (str_int i) =
     (if i < 0 then 45 # map of_char (digits (nat (- i))) else map of_char (digits (nat i)))"
  by (simp add: str_int_def)

lemma str_int_ascii:
  assumes "c \<in> set (map of_char (str_int i))"
  shows "c < (128::nat) \<and> c \<noteq> 13 \<and> \<not> int_space c"
proof -
  from assms have "c = 45 \<or> c \<in> set (map of_char (digits (nat (- i)))) \<or> c \<in> set (map of_char (digits (nat i)))"
    by (auto simp: str_int_def split: if_splits)
  then show ?thesis
  proof (elim disjE)
    assume "c = 45" then show ?thesis by (simp add: int_space_def)
  next
    assume "c \<in> set (map of_char (digits (nat (- i))))"
    then obtain d where "d < 10" "c = 48 + d" using digits_points by blast
    then show ?thesis by (simp add: ascii_digit_plain)
  next
    assume "c \<in> set (map of_char (digits (nat i)))"
    then obtain d where "d < 10" "c = 48 + d" using digits_points by blast
    then show ?thesis by (simp add: ascii_digit_plain)
  qed
qed

lemma int_of_str_str_int: "int_of_str (map of_char (str_int i) @ [10]) = Inr i"
proof -
  have ne: "map of_char (str_int i) \<noteq> ([] :: nat list)"
    by (simp add: str_int_def digits_not_Nil)
  have ns: "\<forall>c \<in> set (map of_char (str_int i) :: nat list). \<not> int_space c"
    using str_int_ascii by blast
  have s: "int_strip (map of_char (str_int i) @ [10]) = map of_char (str_int i)"
    by (rule int_strip_line[OF ne ns])
  show ?thesis
  proof (cases "i < 0")
    case True
    with s show ?thesis
      by (simp add: int_of_str_def str_int_points parse_digits_digits)
  next
    case False
    obtain c cs where d: "map of_char (digits (nat i)) = (c :: nat) # cs"
      using digits_not_Nil by (cases "digits (nat i)") auto
    then have "c \<in> set (map of_char (digits (nat i)))" by simp
    then obtain k where "k < 10" and "c = 48 + k"
      using digits_points by blast
    then have c: "c \<noteq> 45" "c \<noteq> 43"
      by (simp_all add: ascii_digit_plain)
    from False s d c parse_digits_digits[of "nat i"] show ?thesis
      by (simp add: int_of_str_def str_int_points)
  qed
qed

lemma read_text_str_int:
  assumes "files w p = Some (str_int i @ ''\<newline>'')"
  shows "read_text p w = (Inr (map of_char (str_int i) @ [10]), w)"
proof -
  have a: "\<forall>b \<in> set (map of_char (str_int i) @ [10 :: nat]). b < 128"
    using str_int_ascii by auto
  have r: "13 \<notin> set (map of_char (str_int i) @ [10 :: nat])"
    using str_int_ascii by auto
  from assms show ?thesis
    by (simp add: read_text_def decode_utf8_ascii[OF a] universal_newlines_plain[OF r])
qed

subsection \<open>What the steps of the daemon leave alone\<close>

lemma run_callbacks_absent: "files w p = None \<Longrightarrow> files (run_callbacks cbs w) p = None"
  by (induction cbs w rule: run_callbacks.induct)
     (auto simp: os_remove_def split: option.splits)

lemma run_callbacks_removes: "Remove p \<in> set cbs \<Longrightarrow> files (run_callbacks cbs w) p = None"
proof (induction cbs w rule: run_callbacks.induct)
  case (1 w)
  then show ?case by simp
next
  case (2 q cbs w)
  show ?case
  proof (cases "q = p")
    case True
    then show ?thesis
      by (auto simp: os_remove_def run_callbacks_absent split: option.splits)
  next
    case False
    with 2 show ?thesis
      by (auto simp: os_remove_def split: option.splits)
  qed
qed

lemma run_callbacks_pid: "pid (run_callbacks cbs w) = pid w"
  by (induction cbs w rule: run_callbacks.induct) (auto simp: os_remove_def split: option.splits)

lemma run_callbacks_out: "out (run_callbacks cbs w) = out w"
  by (induction cbs w rule: run_callbacks.induct) (auto simp: os_remove_def split: option.splits)

lemma run_callbacks_signalled: "signalled (run_callbacks cbs w) = signalled w"
  by (induction cbs w rule: run_callbacks.induct) (auto simp: os_remove_def split: option.splits)

lemma run_callbacks_err: "err (run_callbacks cbs w) = err w"
  by (induction cbs w rule: run_callbacks.induct) (auto simp: os_remove_def split: option.splits)

lemma PIDFILE_neq_LOGFILE: "LOGFILE \<noteq> PIDFILE"
  by (simp add: PIDFILE_def LOGFILE_def)

lemma get_audio_info_keeps:
  "get_audio_info po w = (r, w') \<Longrightarrow>
   files w' = files w \<and> atexit w' = atexit w \<and> on_sigterm w' = on_sigterm w \<and> out w' = out w"
  by (auto simp: get_audio_info_def Popen_def prog_defs
      split: popen_outcome.splits sum.splits option.splits prod.splits if_splits error.splits)

lemma switch_audio_to_keeps:
  "switch_audio_to now st a n w = (r, w') \<Longrightarrow>
   files w' = files w \<and> atexit w' = atexit w \<and> on_sigterm w' = on_sigterm w"
  by (auto simp: switch_audio_to_def Popen_def stdout_write_def prog_defs split: if_splits)

lemma check_log_file_size_keeps:
  "check_log_file_size now w = (r, w') \<Longrightarrow>
   files w' PIDFILE = files w PIDFILE \<and> atexit w' = atexit w \<and> on_sigterm w' = on_sigterm w"
  using PIDFILE_neq_LOGFILE
  by (auto simp: check_log_file_size_def getsize_def open_append_def truncate_file_def
        stdout_write_def prog_defs split: option.splits if_splits)

lemma iteration_alt:
  "iteration t =
     bind (get_audio_info (list_cards t)) (\<lambda>(active_profile, product).
       seq (case product of
              None \<Rightarrow> raise AttributeError
            | Some p \<Rightarrow> switch_audio_to (ctime_switch t) (set_profile_starts t) active_profile (desired p))
        (seq (check_log_file_size (ctime_clean t)) (time_sleep 5)))"
  unfolding iteration_def desired_def
  by (rule arg_cong[where f="bind _"]) (auto simp: fun_eq_iff split: option.splits)

lemma iteration_keeps:
  assumes "iteration t w = (r, w')"
  shows "files w' PIDFILE = files w PIDFILE \<and> atexit w' = atexit w \<and> on_sigterm w' = on_sigterm w"
proof (cases "get_audio_info (list_cards t) w")
  case (Pair r1 w1)
  note g = get_audio_info_keeps[OF Pair]
  show ?thesis
  proof (cases r1)
    case (Inl e)
    with assms Pair g show ?thesis by (simp add: iteration_alt prog_defs)
  next
    case (Inr ap)
    obtain a product where ap: "ap = (a, product)" by (cases ap)
    show ?thesis
    proof (cases product)
      case None
      with assms Pair Inr ap g show ?thesis by (auto simp: iteration_alt prog_defs)
    next
      case (Some p)
      obtain r2 w2 where s: "switch_audio_to (ctime_switch t) (set_profile_starts t) a (desired p) w1 = (r2, w2)"
        by (cases "switch_audio_to (ctime_switch t) (set_profile_starts t) a (desired p) w1")
      note k2 = switch_audio_to_keeps[OF s]
      obtain r3 w3 where c: "check_log_file_size (ctime_clean t) w2 = (r3, w3)"
        by (cases "check_log_file_size (ctime_clean t) w2")
      note k3 = check_log_file_size_keeps[OF c]
      from assms Pair Inr ap Some s c g k2 k3 show ?thesis
        by (auto simp: iteration_alt prog_defs time_sleep_def split: sum.splits)
    qed
  qed
qed

lemma iteration_armed: "iteration t w = (r, w') \<Longrightarrow> armed w \<Longrightarrow> armed w'"
  by (drule iteration_keeps) (simp add: armed_def path_exists_def)

lemma receive_sigterm_handled:
  "on_sigterm w = Handler_sigterm \<Longrightarrow>
   receive_sigterm now w
     = (Raised (SystemExit 1), w\<lparr>out := out w @ [now @ '': Quitting daemon\<newline>'']\<rparr>)"
  by (simp add: receive_sigterm_def sigterm_handler_def stdout_write_def prog_defs)

lemma main_loop_armed:
  "armed w \<Longrightarrow> main_loop es w = (x, w') \<Longrightarrow> armed w' \<and> x \<noteq> Killed \<and> x \<noteq> Returned"
proof (induction es w rule: main_loop.induct)
  case (1 w)
  then show ?case by auto
next
  case (2 t es w)
  obtain r w1 where i: "iteration t w = (r, w1)" by (cases "iteration t w")
  with 2(2) have a1: "armed w1" by (simp add: iteration_armed)
  show ?case
  proof (cases r)
    case (Inl e)
    with 2(3) i a1 show ?thesis by auto
  next
    case (Inr u)
    with 2(1)[OF i[symmetric] _ a1] 2(3) i show ?thesis by auto
  qed
next
  case (3 now es w)
  from "3.prems"(1) have h: "on_sigterm w = Handler_sigterm" by (simp add: armed_def)
  then have "receive_sigterm now w
      = (Raised (SystemExit 1), w\<lparr>out := out w @ [now @ '': Quitting daemon\<newline>'']\<rparr>)"
    by (simp add: receive_sigterm_handled)
  with "3.prems"(2) have "x = Raised (SystemExit 1)"
    and "w' = w\<lparr>out := out w @ [now @ '': Quitting daemon\<newline>'']\<rparr>"
    by simp_all
  with "3.prems"(1) show ?case by (simp add: armed_def path_exists_def)
next
  case (4 s es w)
  have "armed (append_file LOGFILE s w)"
    using 4(2) PIDFILE_neq_LOGFILE
    by (auto simp: armed_def path_exists_def append_file_def split: option.splits)
  with 4 show ?case by simp
qed

lemma finish_armed:
  assumes "armed w" and "x \<noteq> Killed"
  shows "path_exists PIDFILE (snd (finish (x, w))) = (fst (finish (x, w)) = Running)"
proof (cases x)
  case Returned
  with assms show ?thesis
    by (simp add: py_exit_def Let_def path_exists_def armed_def run_callbacks_removes)
next
  case (Raised e)
  with assms show ?thesis
    by (cases e) (simp_all add: py_exit_def Let_def path_exists_def armed_def run_callbacks_removes)
next
  case StillLooping
  with assms show ?thesis by (simp add: armed_def)
next
  case Killed
  with assms show ?thesis by simp
qed

subsection \<open>The state after \<^verbatim>\<open>daemonize\<close>\<close>

lemma daemonize_success:
  assumes "daemonize ev PIDFILE ''/dev/null'' LOGFILE LOGFILE w = (Inr (), wd)"
  shows "\<exists>c1 c2. fork1 ev = ForkChild c1 \<and> fork2 ev = ForkChild c2 \<and> pid wd = c2
    \<and> files wd PIDFILE = Some (str_int c2 @ ''\<newline>'')
    \<and> atexit wd = atexit w @ [Remove PIDFILE]
    \<and> on_sigterm wd = Handler_sigterm
    \<and> exited wd = exited w @ [(pid w, 0), (c1, 0)]
    \<and> stdout_to wd = Some LOGFILE \<and> stderr_to wd = Some LOGFILE
    \<and> out wd = out w \<and> err wd = err w \<and> signalled wd = signalled w"
proof -
  from assms have ne: "\<not> path_exists PIDFILE w"
    by (auto simp: daemonize_def daemonize_upto_atexit_def prog_defs split: if_splits)
  obtain c1 where f1: "fork1 ev = ForkChild c1"
    using assms ne
    by (cases "fork1 ev") (auto simp: daemonize_def daemonize_upto_atexit_def fork_or_exit_def os_fork_def prog_defs)
  obtain c2 where f2: "fork2 ev = ForkChild c2"
    using assms ne f1
    by (cases "fork2 ev")
       (auto simp: daemonize_def daemonize_upto_atexit_def fork_or_exit_def os_defs prog_defs)
  from assms ne f1 f2 show ?thesis
    by (auto simp: daemonize_def daemonize_upto_atexit_def fork_or_exit_def os_defs prog_defs
        split: option.splits)
qed

lemma daemonize_armed:
  "daemonize ev PIDFILE ''/dev/null'' LOGFILE LOGFILE w = (Inr (), wd) \<Longrightarrow> armed wd"
  by (drule daemonize_success) (auto simp: armed_def path_exists_def)

subsection \<open>The end of the process\<close>


lemma fst_py_exit: "fst (py_exit code w) = Exited code"
  by (simp add: py_exit_def Let_def)

lemma fst_finish_Raised: "fst (finish (Raised e, w)) = Exited (case e of SystemExit n \<Rightarrow> n | _ \<Rightarrow> 1)"
  by (cases e) (simp_all add: fst_py_exit)

lemma start_with_pidfile:
  "path_exists PIDFILE w \<Longrightarrow> script [a0, ''start''] ev w = (Raised (SystemExit 1), w)"
  by (simp add: script_def daemonize_def daemonize_upto_atexit_def prog_defs)

subsection \<open>The sample daemon\<close>

lemma daemon0_ok:
  "daemonize (calm []) PIDFILE ''/dev/null'' LOGFILE LOGFILE (boot [(''/dev/null'', [])] 4242)
     = (Inr (), daemon0)"
proof -
  have "fst (daemonize (calm []) PIDFILE ''/dev/null'' LOGFILE LOGFILE (boot [(''/dev/null'', [])] 4242)) = Inr ()"
    by (simp add: daemonize_def daemonize_upto_atexit_def fork_or_exit_def os_defs prog_defs calm_def boot_def
          path_exists_def PIDFILE_def LOGFILE_def)
  then show ?thesis by (simp add: daemon0_def prod_eq_iff)
qed

lemma get_audio_info_Started:
  "get_audio_info (Started ls) w =
     (case read_lines ls None None of
        Inl e \<Rightarrow> (Inl e, w\<lparr>spawned := spawned w @ [ [''pacmd'', ''list-cards''] ]\<rparr>)
      | Inr (None, product) \<Rightarrow>
          (Inl (SystemError ''Active profile is none''),
           w\<lparr>spawned := spawned w @ [ [''pacmd'', ''list-cards''] ]\<rparr>)
      | Inr (Some a, product) \<Rightarrow>
          (Inr (a, product), w\<lparr>spawned := spawned w @ [ [''pacmd'', ''list-cards''] ]\<rparr>))"
  by (simp add: get_audio_info_def Popen_def prog_defs split: sum.splits option.splits)

lemma iteration_after_observation:
  "get_audio_info (list_cards t) w = (Inr (a, Some p), w1) \<Longrightarrow>
   iteration t w =
     seq (switch_audio_to (ctime_switch t) (set_profile_starts t) a (desired p))
         (seq (check_log_file_size (ctime_clean t)) (time_sleep 5)) w1"
  by (simp add: iteration_alt bind_def)

text \<open>
  With the wanted profile already active, a pass of the loop is the check of the log file
  and the sleep, and nothing else.
\<close>

lemma iteration_debounced:
  "get_audio_info (list_cards t) w = (Inr (desired p, Some p), w1) \<Longrightarrow>
   iteration t w = seq (check_log_file_size (ctime_clean t)) (time_sleep 5) w1"
  by (simp add: iteration_after_observation switch_audio_to_def prog_defs)

text \<open>
  Output in which no line starts with \<^verbatim>\<open>active profile\<close> yields no profile, and output in
  which no line starts with \<^verbatim>\<open>device.product.name\<close> yields no product.
\<close>

lemma read_lines_without_active:
  "\<forall>l \<in> set ls. \<exists>raw. l = Some raw \<and> \<not> startswith (strip raw) ''active profile'' \<Longrightarrow>
   \<exists>product. read_lines ls None p0 = Inr (None, product)"
proof (induction ls arbitrary: p0)
  case Nil
  then show ?case by simp
next
  case (Cons l ls)
  then obtain raw where l: "l = Some raw" and n: "\<not> startswith (strip raw) ''active profile''"
    by auto
  from Cons have "\<And>p. \<exists>product. read_lines ls None p = Inr (None, product)" by simp
  with l n show ?case by (simp add: Let_def)
qed

lemma read_lines_without_product:
  "\<forall>l \<in> set ls. \<exists>raw. l = Some raw \<and> \<not> startswith (strip raw) ''device.product.name'' \<Longrightarrow>
   read_lines ls a0 None = Inr (a, product) \<Longrightarrow> product = None"
proof (induction ls arbitrary: a0)
  case Nil
  then show ?case by simp
next
  case (Cons l ls)
  then obtain raw where l: "l = Some raw" and n: "\<not> startswith (strip raw) ''device.product.name''"
    by auto
  from Cons(2) have r: "\<forall>l \<in> set ls. \<exists>raw. l = Some raw \<and> \<not> startswith (strip raw) ''device.product.name''"
    by simp
  from Cons(3) l n Cons(1)[OF r] show ?case
    by (auto simp: Let_def split: if_splits)
qed

lemma str_int_4244: "str_int 4244 = ''4244''"
  by code_simp

lemma read_benq_on_analog:
  "read_lines benq_on_analog None None =
     Inr (Some ''output:analog-stereo+input:analog-stereo'', Some ''BenQ GW2765'')"
  by code_simp

lemma read_benq_on_hdmi:
  "read_lines benq_on_hdmi None None = Inr (Some ''output:hdmi-stereo'', Some ''BenQ GW2765'')"
  by code_simp


lemma desired_BenQ: "desired ''BenQ GW2765'' = ''output:hdmi-stereo''"
  by (simp add: desired_def startswith_def)

lemma repr_restart: "repr ''restart'' = CHR 0x27 # ''restart'' @ [CHR 0x27]"
  by code_simp

subsection \<open>The \<^verbatim>\<open>stop\<close> branch on pid files that \<^verbatim>\<open>daemonize\<close> does not write\<close>

text \<open>
  The pid file may be stale or written by someone else. The id 0 names the group of the
  caller, so \<^verbatim>\<open>stop\<close> signals itself and is ended; \<open>-1\<close> names every process but the
  caller; a text that starts with the separator U+001F is no number for \<^verbatim>\<open>int\<close>; the byte
  \<open>0xA0\<close> alone is not UTF-8; and an id beyond a C \<^verbatim>\<open>int\<close> is refused before the system
  is asked.
\<close>

lemmas stop_eval = stop_def path_exists_def read_text_def int_of_str_def int_strip_def
  int_space_def digit_val_def decimal_zeros_def os_kill_def signals_caller_def
  receive_sigterm_def boot_def calm_def accept_all_def PIDFILE_def

lemma stop_on_group_zero:
  "stop (calm []) (boot [(PIDFILE, ''0\<newline>'')] 4300)
     = (Killed, (boot [(PIDFILE, ''0\<newline>'')] 4300)\<lparr>signalled := [(0, SIGTERM)]\<rparr>)"
  by (simp add: stop_eval)

lemma stop_on_everyone:
  "stop (calm []) (boot [(PIDFILE, ''-1\<newline>'')] 4300)
     = (Returned, (boot [(PIDFILE, ''-1\<newline>'')] 4300)\<lparr>signalled := [(- 1, SIGTERM)]\<rparr>)"
  by (simp add: stop_eval)

lemma stop_on_separator:
  "stop (calm []) (boot [(PIDFILE, CHR 0x1F # ''1706\<newline>'')] 4300)
     = (Raised ValueError, boot [(PIDFILE, CHR 0x1F # ''1706\<newline>'')] 4300)"
  by (simp add: stop_eval)

lemma stop_on_undecodable:
  "stop (calm []) (boot [(PIDFILE, ''4244'' @ [CHR 0xA0, CHR 0x0A])] 4300)
     = (Raised UnicodeDecodeError, boot [(PIDFILE, ''4244'' @ [CHR 0xA0, CHR 0x0A])] 4300)"
  by (simp add: stop_eval)

lemma stop_on_overflow:
  "stop (calm []) (boot [(PIDFILE, ''2147483648\<newline>'')] 4300)
     = (Raised OverflowError, boot [(PIDFILE, ''2147483648\<newline>'')] 4300)"
  by (simp add: stop_eval)

subsection \<open>The daemon once the handler is installed\<close>

text \<open>
  From the return of \<^verbatim>\<open>daemonize\<close> on: when the termination signal arrives, the handler
  writes exactly one timestamped shutdown line to the output stream and ends the process
  (exit code 1); and on every way out (the script returning, the signal, an exception that
  nothing catches) the pid file is removed, so that the pid file exists exactly while the
  daemon runs. Here \<open>wd\<close> is the state \<^verbatim>\<open>daemonize\<close> leaves and \<open>w1\<close> any state the daemon is
  in after further events.
\<close>

theorem handled_sigterm_and_cleanup:
  assumes "daemonize ev PIDFILE ''/dev/null'' LOGFILE LOGFILE w = (Inr (), wd)"
    and "main_loop es wd = (StillLooping, w1)"
  shows "main_loop (Sigterm now # es1) w1 =
           (Raised (SystemExit 1), w1\<lparr>out := out w1 @ [now @ '': Quitting daemon\<newline>'']\<rparr>)
       \<and> fst (finish (main_loop (Sigterm now # es1) w1)) = Exited 1
       \<and> \<not> path_exists PIDFILE (snd (finish (Raised e, w1)))
       \<and> \<not> path_exists PIDFILE (snd (finish (Returned, w1)))
       \<and> path_exists PIDFILE (snd (finish (main_loop es2 w1)))
           = (fst (finish (main_loop es2 w1)) = Running)"
proof -
  from assms(1) have "armed wd" by (rule daemonize_armed)
  with assms(2) have a: "armed w1" using main_loop_armed by blast
  then have h: "on_sigterm w1 = Handler_sigterm" by (simp add: armed_def)
  then have s: "main_loop (Sigterm now # es1) w1 =
           (Raised (SystemExit 1), w1\<lparr>out := out w1 @ [now @ '': Quitting daemon\<newline>'']\<rparr>)"
    by (simp add: receive_sigterm_handled)
  have c: "fst (finish (main_loop (Sigterm now # es1) w1)) = Exited 1"
    by (simp only: s fst_finish_Raised) simp
  have r: "\<not> path_exists PIDFILE (snd (finish (Raised e, w1)))"
    using finish_armed[OF a, of "Raised e"] by (simp add: fst_finish_Raised)
  have n: "\<not> path_exists PIDFILE (snd (finish (Returned, w1)))"
    using finish_armed[OF a, of Returned] by (simp add: fst_py_exit)
  obtain x w2 where m: "main_loop es2 w1 = (x, w2)" by (cases "main_loop es2 w1")
  with a have "armed w2" and "x \<noteq> Killed" using main_loop_armed by blast+
  then have "path_exists PIDFILE (snd (finish (x, w2))) = (fst (finish (x, w2)) = Running)"
    by (rule finish_armed)
  with s c r n m show ?thesis by simp
qed

theorem handled_sigterm_and_cleanup_example:
  "fst (finish (main_loop [Sigterm ''Wed Nov  4 12:01:00 2026''] daemon0)) = Exited 1
   \<and> out (snd (main_loop [Sigterm ''Wed Nov  4 12:01:00 2026''] daemon0))
       = [''Wed Nov  4 12:01:00 2026: Quitting daemon\<newline>'']
   \<and> \<not> path_exists PIDFILE (snd (finish (main_loop [Sigterm ''Wed Nov  4 12:01:00 2026''] daemon0)))
   \<and> path_exists PIDFILE daemon0"
proof -
  have l: "main_loop [] daemon0 = (StillLooping, daemon0)" by simp
  have o: "out daemon0 = []"
    using daemonize_success[OF daemon0_ok] by (auto simp: boot_def)
  from handled_sigterm_and_cleanup[OF daemon0_ok l, of "''Wed Nov  4 12:01:00 2026''" "[]" _ "[]"]
    handled_sigterm_and_cleanup[OF daemon0_ok l, of _ _ _ "[Sigterm ''Wed Nov  4 12:01:00 2026'']"]
  show ?thesis using o by simp
qed

subsection \<open>The claims\<close>

text \<open>
  C1. The claim asks that on every way out of the daemon after the pid file was created the
  pid file is removed. The script registers the removal at line 54 and installs the handler
  only at line 61. In the run below both forks succeed and the termination signal arrives
  between the two: the disposition is still the default, the system ends the process, no
  callback runs, and the pid file stays, naming a process that is gone.
\<close>

theorem sigterm_before_handler_leaves_pidfile:
  "fst (finish (start_signalled_early (calm []) ''Wed Nov  4 12:00:00 2026''
                  (boot [(''/dev/null'', [])] 4242))) = KilledBySignal
   \<and> files (snd (finish (start_signalled_early (calm []) ''Wed Nov  4 12:00:00 2026''
                  (boot [(''/dev/null'', [])] 4242)))) PIDFILE = Some ''4244\<newline>''
   \<and> atexit (snd (finish (start_signalled_early (calm []) ''Wed Nov  4 12:00:00 2026''
                  (boot [(''/dev/null'', [])] 4242)))) = [Remove PIDFILE]"
proof -
  have "start_signalled_early (calm []) ''Wed Nov  4 12:00:00 2026'' (boot [(''/dev/null'', [])] 4242)
      = (Killed, snd (daemonize_upto_atexit (calm []) PIDFILE ''/dev/null'' LOGFILE LOGFILE
                        (boot [(''/dev/null'', [])] 4242)))"
    by (simp add: start_signalled_early_def receive_sigterm_def daemonize_upto_atexit_def
          fork_or_exit_def os_defs prog_defs calm_def boot_def path_exists_def
          PIDFILE_def LOGFILE_def)
  then show ?thesis
    by (simp add: daemonize_upto_atexit_def fork_or_exit_def os_defs prog_defs calm_def
          boot_def path_exists_def PIDFILE_def LOGFILE_def str_int_4244)
qed

text \<open>
  C2. Starting while the pid file exists: the process ends with exit code 1 and the state
  is untouched, so the pid file keeps its content; but nothing at all is written, neither
  to the error stream nor to the output stream, and the interpreter reports nothing. The
  run below starts process 4242 while the pid file names process 4000.
\<close>

theorem start_conflict_is_silent:
  "run [''stumfixer.py'', ''start''] (calm []) (boot [(PIDFILE, ''4000\<newline>'')] 4242)
     = (Exited 1, (boot [(PIDFILE, ''4000\<newline>'')] 4242)\<lparr>exited := [(4242, 1)]\<rparr>)
   \<and> err (snd (run [''stumfixer.py'', ''start''] (calm []) (boot [(PIDFILE, ''4000\<newline>'')] 4242))) = []
   \<and> files (snd (run [''stumfixer.py'', ''start''] (calm []) (boot [(PIDFILE, ''4000\<newline>'')] 4242))) PIDFILE
       = Some ''4000\<newline>''"
proof -
  have e: "path_exists PIDFILE (boot [(PIDFILE, ''4000\<newline>'')] 4242)"
    by (simp add: path_exists_def boot_def)
  have "run [''stumfixer.py'', ''start''] (calm []) (boot [(PIDFILE, ''4000\<newline>'')] 4242)
     = (Exited 1, (boot [(PIDFILE, ''4000\<newline>'')] 4242)\<lparr>exited := [(4242, 1)]\<rparr>)"
    by (simp add: run_def start_with_pidfile[OF e] py_exit_def) (simp add: boot_def)
  then show ?thesis by (simp add: boot_def)
qed

text \<open>
  One call of \<^verbatim>\<open>switch_audio_to\<close>: with the active profile equal to the wanted one it does
  nothing; otherwise it writes one timestamped line naming the wanted profile and then
  calls \<^verbatim>\<open>pacmd set-card-profile\<close> (which starts, or raises when the program cannot be
  started).
\<close>

lemma switch_audio_to_cases:
  "switch_audio_to now starts active name w =
     (if active = name then (Inr (), w)
      else if starts then
        (Inr (), w\<lparr>out := out w @ [now @ '': Setting card profile to '' @ name @ ''\<newline>''],
                    spawned := spawned w @ [ [''pacmd'', ''set-card-profile'', ''0'', name] ]\<rparr>)
      else
        (Inl (OSError ''ENOENT''),
         w\<lparr>out := out w @ [now @ '': Setting card profile to '' @ name @ ''\<newline>'']\<rparr>))"
  by (simp add: switch_audio_to_def stdout_write_def Popen_def prog_defs)

text \<open>
  C3, as the script has it. Take a pass of the loop in which the output of
  \<^verbatim>\<open>pacmd list-cards\<close> yields the active profile \<open>a\<close> and the product \<open>p\<close>, and the log file
  exists with content \<open>c\<close>. If \<open>a\<close> is the profile wanted for \<open>p\<close>, no
  \<^verbatim>\<open>pacmd set-card-profile\<close> is started and the apply step writes nothing: the pass writes
  nothing at all, unless the log file exceeds \<^verbatim>\<open>MAXLOGSIZE\<close>, in which case the check of the
  log file writes its one notice. If \<open>a\<close> differs, one timestamped line naming the wanted
  profile is written and \<^verbatim>\<open>pacmd set-card-profile\<close> is called with it (and started, when the
  program can be started), before the check of the log file.
\<close>

theorem iteration_debounce:
  assumes "list_cards t = Started ls"
    and "read_lines ls None None = Inr (Some a, Some p)"
    and "files w LOGFILE = Some c"
  shows "iteration t w =
     (if a = desired p then
        (if MAXLOGSIZE < length c then
           (Inr (), w\<lparr>spawned := spawned w @ [ [''pacmd'', ''list-cards''] ],
                       files := (files w)(LOGFILE \<mapsto> []),
                       out := out w @ [ctime_clean t @ '': Cleaning up log file!\<newline>'']\<rparr>)
         else (Inr (), w\<lparr>spawned := spawned w @ [ [''pacmd'', ''list-cards''] ]\<rparr>))
      else if set_profile_starts t then
        (if MAXLOGSIZE < length c then
           (Inr (), w\<lparr>spawned := spawned w @ [ [''pacmd'', ''list-cards''],
                                               [''pacmd'', ''set-card-profile'', ''0'', desired p] ],
                       files := (files w)(LOGFILE \<mapsto> []),
                       out := out w @ [ctime_switch t @ '': Setting card profile to '' @ desired p @ ''\<newline>'',
                                       ctime_clean t @ '': Cleaning up log file!\<newline>'']\<rparr>)
         else
           (Inr (), w\<lparr>spawned := spawned w @ [ [''pacmd'', ''list-cards''],
                                               [''pacmd'', ''set-card-profile'', ''0'', desired p] ],
                       out := out w @ [ctime_switch t @ '': Setting card profile to '' @ desired p @ ''\<newline>'']\<rparr>))
      else
        (Inl (OSError ''ENOENT''),
         w\<lparr>spawned := spawned w @ [ [''pacmd'', ''list-cards''] ],
            out := out w @ [ctime_switch t @ '': Setting card profile to '' @ desired p @ ''\<newline>'']\<rparr>))"
proof -
  from assms(1,2) have g: "get_audio_info (list_cards t) w =
      (Inr (a, Some p), w\<lparr>spawned := spawned w @ [ [''pacmd'', ''list-cards''] ]\<rparr>)"
    by (simp add: get_audio_info_Started)
  from assms(3) show ?thesis
    by (simp add: iteration_after_observation[OF g] switch_audio_to_cases
          check_log_file_size_def getsize_def open_append_def truncate_file_def
          stdout_write_def time_sleep_def prog_defs)
qed

theorem iteration_debounce_witness:
  "iteration (pass benq_on_hdmi True) (boot [(LOGFILE, replicate 1000000 (CHR ''x''))] 4244)
     = (Inr (), (boot [(LOGFILE, replicate 1000000 (CHR ''x''))] 4244)
                  \<lparr>spawned := [ [''pacmd'', ''list-cards''] ]\<rparr>)
   \<and> iteration (pass benq_on_analog True) (boot [(LOGFILE, replicate 1000000 (CHR ''x''))] 4244)
     = (Inr (), (boot [(LOGFILE, replicate 1000000 (CHR ''x''))] 4244)
                  \<lparr>spawned := [ [''pacmd'', ''list-cards''],
                                 [''pacmd'', ''set-card-profile'', ''0'', ''output:hdmi-stereo''] ],
                    out := [''Wed Nov  4 12:00:05 2026: Setting card profile to output:hdmi-stereo\<newline>'']\<rparr>)"
proof -
  have l1: "list_cards (pass benq_on_hdmi True) = Started benq_on_hdmi"
    and l2: "list_cards (pass benq_on_analog True) = Started benq_on_analog"
    by (simp_all add: pass_def)
  have f: "files (boot [(LOGFILE, replicate 1000000 (CHR ''x''))] 4244) LOGFILE
      = Some (replicate 1000000 (CHR ''x''))"
    by (simp add: boot_def)
  have b: "spawned (boot [(LOGFILE, replicate 1000000 (CHR ''x''))] 4244) = []"
    "out (boot [(LOGFILE, replicate 1000000 (CHR ''x''))] 4244) = []"
    by (simp_all add: boot_def)
  from iteration_debounce[OF l1 read_benq_on_hdmi f] iteration_debounce[OF l2 read_benq_on_analog f]
  show ?thesis
    by (simp add: desired_BenQ MAXLOGSIZE_def pass_def b)
qed

text \<open>
  C3, as claimed, fails: in the pass below the active profile is the wanted one (HDMI, next
  to a BenQ monitor) and the log file holds 1000001 bytes; no \<^verbatim>\<open>pacmd set-card-profile\<close> is
  started, yet the pass writes a log line, the notice of the check of the log file.
\<close>

theorem debounced_pass_counterexample:
  "read_lines benq_on_hdmi None None = Inr (Some ''output:hdmi-stereo'', Some ''BenQ GW2765'')
   \<and> desired ''BenQ GW2765'' = ''output:hdmi-stereo''
   \<and> out (snd (iteration (pass benq_on_hdmi True)
                  (boot [(LOGFILE, replicate 1000001 (CHR ''x''))] 4244)))
       = [''Wed Nov  4 12:00:06 2026: Cleaning up log file!\<newline>'']
   \<and> spawned (snd (iteration (pass benq_on_hdmi True)
                  (boot [(LOGFILE, replicate 1000001 (CHR ''x''))] 4244)))
       = [ [''pacmd'', ''list-cards''] ]"
proof -
  have g: "get_audio_info (list_cards (pass benq_on_hdmi True))
             (boot [(LOGFILE, replicate 1000001 (CHR ''x''))] 4244)
      = (Inr (''output:hdmi-stereo'', Some ''BenQ GW2765''),
         (boot [(LOGFILE, replicate 1000001 (CHR ''x''))] 4244)
           \<lparr>spawned := spawned (boot [(LOGFILE, replicate 1000001 (CHR ''x''))] 4244)
                         @ [ [''pacmd'', ''list-cards''] ]\<rparr>)"
    by (simp add: pass_def get_audio_info_Started read_benq_on_hdmi)
  have "iteration (pass benq_on_hdmi True) (boot [(LOGFILE, replicate 1000001 (CHR ''x''))] 4244)
      = (Inr (), (boot [(LOGFILE, [])] 4244)
                   \<lparr>spawned := [ [''pacmd'', ''list-cards''] ],
                     out := [''Wed Nov  4 12:00:06 2026: Cleaning up log file!\<newline>'']\<rparr>)"
    by (subst iteration_after_observation[OF g])
       (simp add: desired_BenQ switch_audio_to_cases check_log_file_size_def getsize_def
          open_append_def truncate_file_def stdout_write_def time_sleep_def prog_defs
          pass_def boot_def MAXLOGSIZE_def)
  then show ?thesis
    by (simp add: read_benq_on_hdmi desired_BenQ)
qed

text \<open>
  C4. \<^verbatim>\<open>check_log_file_size\<close> on a log file of any size: above \<^verbatim>\<open>MAXLOGSIZE\<close> (1000000) the file
  is cut to size 0 and exactly one timestamped notice is written to the output stream;
  otherwise the file and the output stream, and all the rest of the state, stay as they are.
\<close>

theorem check_log_file_size_bound:
  "files w LOGFILE = Some c \<Longrightarrow>
   check_log_file_size now w =
     (if MAXLOGSIZE < length c
      then (Inr (), w\<lparr>files := (files w)(LOGFILE \<mapsto> []),
                       out := out w @ [now @ '': Cleaning up log file!\<newline>'']\<rparr>)
      else (Inr (), w))"
  by (simp add: check_log_file_size_def getsize_def open_append_def truncate_file_def
        stdout_write_def prog_defs)

theorem check_log_file_size_bound_witness:
  "check_log_file_size ''Wed Nov  4 12:00:06 2026''
       (boot [(LOGFILE, replicate 1000001 (CHR ''x''))] 4244)
     = (Inr (), (boot [(LOGFILE, [])] 4244)\<lparr>out := [''Wed Nov  4 12:00:06 2026: Cleaning up log file!\<newline>'']\<rparr>)
   \<and> check_log_file_size ''Wed Nov  4 12:00:06 2026''
       (boot [(LOGFILE, replicate 1000000 (CHR ''x''))] 4244)
     = (Inr (), boot [(LOGFILE, replicate 1000000 (CHR ''x''))] 4244)"
proof -
  have a: "files (boot [(LOGFILE, replicate 1000001 (CHR ''x''))] 4244) LOGFILE
      = Some (replicate 1000001 (CHR ''x''))"
    by (simp add: boot_def)
  have b: "files (boot [(LOGFILE, replicate 1000000 (CHR ''x''))] 4244) LOGFILE
      = Some (replicate 1000000 (CHR ''x''))"
    by (simp add: boot_def)
  from check_log_file_size_bound[OF a, of "''Wed Nov  4 12:00:06 2026''"]
    check_log_file_size_bound[OF b, of "''Wed Nov  4 12:00:06 2026''"]
  show ?thesis by (simp add: MAXLOGSIZE_def boot_def)
qed




text \<open>
  C6. In a pass where the output of \<^verbatim>\<open>pacmd list-cards\<close> yields no active profile,
  \<^verbatim>\<open>get_audio_info\<close> raises \<^verbatim>\<open>SystemError\<close>, which leaves the loop and ends the process
  with exit code 1; the command was started once and nothing else happened in the pass.
\<close>

theorem observation_failure_is_fatal:
  assumes "list_cards t = Started ls"
    and "read_lines ls None None = Inr (None, product)"
  shows "main_loop (Iteration t # es) w =
           (Raised (SystemError ''Active profile is none''),
            w\<lparr>spawned := spawned w @ [ [''pacmd'', ''list-cards''] ]\<rparr>)
       \<and> fst (finish (main_loop (Iteration t # es) w)) = Exited 1"
proof -
  from assms have "iteration t w =
      (Inl (SystemError ''Active profile is none''),
       w\<lparr>spawned := spawned w @ [ [''pacmd'', ''list-cards''] ]\<rparr>)"
    by (simp add: iteration_def bind_def get_audio_info_Started)
  then show ?thesis by (simp add: fst_py_exit)
qed

theorem observation_failure_is_fatal_witness:
  "fst (finish (main_loop [Iteration (pass no_card True), Iteration (pass benq_on_analog True)] daemon0))
     = Exited 1
   \<and> spawned (snd (main_loop [Iteration (pass no_card True), Iteration (pass benq_on_analog True)] daemon0))
     = spawned daemon0 @ [ [''pacmd'', ''list-cards''] ]"
proof -
  have l: "list_cards (pass no_card True) = Started no_card" by (simp add: pass_def)
  have r: "read_lines no_card None None = Inr (None, None)"
    by (simp add: no_card_def strip_def isspace_def startswith_def)
  from observation_failure_is_fatal[OF l r, of "[Iteration (pass benq_on_analog True)]" daemon0]
  show ?thesis by (simp add: fst_py_exit del: main_loop.simps)
qed

text \<open>
  C7. \<^verbatim>\<open>stop\<close> without a pid file writes \<^verbatim>\<open>Not running\<close> to the error stream and ends with
  exit code 1; no signal is delivered, and nothing else in the state changes before the
  process ends.
\<close>

theorem stop_without_pidfile:
  "\<not> path_exists PIDFILE w \<Longrightarrow>
   script [a0, ''stop''] ev w = (Raised (SystemExit 1), w\<lparr>err := err w @ [''Not running\<newline>'']\<rparr>)
   \<and> fst (run [a0, ''stop''] ev w) = Exited 1
   \<and> signalled (snd (run [a0, ''stop''] ev w)) = signalled w"
proof -
  assume "\<not> path_exists PIDFILE w"
  then have s: "script [a0, ''stop''] ev w
      = (Raised (SystemExit 1), w\<lparr>err := err w @ [''Not running\<newline>'']\<rparr>)"
    by (simp add: script_def stop_def print_stderr_def prog_defs)
  then show ?thesis
    by (simp add: run_def fst_py_exit) (simp add: py_exit_def Let_def run_callbacks_signalled)
qed

theorem stop_without_pidfile_witness:
  "script [''stumfixer.py'', ''stop''] (calm []) (boot [] 4300)
     = (Raised (SystemExit 1), (boot [] 4300)\<lparr>err := [''Not running\<newline>'']\<rparr>)
   \<and> fst (run [''stumfixer.py'', ''stop''] (calm []) (boot [] 4300)) = Exited 1
   \<and> signalled (snd (run [''stumfixer.py'', ''stop''] (calm []) (boot [] 4300))) = []"
proof -
  have n: "\<not> path_exists PIDFILE (boot [] 4300)"
    by (simp add: path_exists_def boot_def)
  have e: "err (boot [] 4300) = []" and g: "signalled (boot [] 4300) = []"
    by (simp_all add: boot_def)
  from stop_without_pidfile[OF n, of "''stumfixer.py''" "calm []"]
  show ?thesis by (simp add: e g)
qed

text \<open>
  C8, as the script has it. With a missing or an extra argument the usage line goes to the
  error stream and the exit code is 1. With one argument that is neither \<^verbatim>\<open>start\<close> nor
  \<^verbatim>\<open>stop\<close> the line \<^verbatim>\<open>Unknown command\<close>, followed by the \<^verbatim>\<open>repr\<close> of the argument, goes to
  the error stream and the exit code is 1.
\<close>

theorem bad_command_line:
  "(argv \<noteq> [] \<and> length argv \<noteq> 2 \<longrightarrow>
      script argv ev w
        = (Raised (SystemExit 1), w\<lparr>err := err w @ [''Usage: '' @ hd argv @ '' [start|stop]\<newline>'']\<rparr>)
      \<and> fst (run argv ev w) = Exited 1)
   \<and> (length argv = 2 \<and> argv ! 1 \<noteq> ''start'' \<and> argv ! 1 \<noteq> ''stop'' \<longrightarrow>
      script argv ev w
        = (Raised (SystemExit 1), w\<lparr>err := err w @ [''Unknown command '' @ repr (argv ! 1) @ ''\<newline>'']\<rparr>)
      \<and> fst (run argv ev w) = Exited 1)"
proof (intro conjI impI)
  assume a: "argv \<noteq> [] \<and> length argv \<noteq> 2"
  then show u: "script argv ev w
      = (Raised (SystemExit 1), w\<lparr>err := err w @ [''Usage: '' @ hd argv @ '' [start|stop]\<newline>'']\<rparr>)"
    by (cases argv) (simp_all add: script_def print_stderr_def prog_defs)
  show "fst (run argv ev w) = Exited 1"
    by (simp add: run_def u fst_py_exit)
next
  assume a: "length argv = 2 \<and> argv ! 1 \<noteq> ''start'' \<and> argv ! 1 \<noteq> ''stop''"
  then show u: "script argv ev w
      = (Raised (SystemExit 1), w\<lparr>err := err w @ [''Unknown command '' @ repr (argv ! 1) @ ''\<newline>'']\<rparr>)"
    by (simp add: script_def print_stderr_def prog_defs)
  show "fst (run argv ev w) = Exited 1"
    by (simp add: run_def u fst_py_exit)
qed

theorem bad_command_line_witness:
  "err (snd (script [''stumfixer.py''] (calm []) (boot [] 4242)))
     = [''Usage: stumfixer.py [start|stop]\<newline>'']
   \<and> fst (run [''stumfixer.py''] (calm []) (boot [] 4242)) = Exited 1
   \<and> err (snd (script [''stumfixer.py'', ''start'', ''now''] (calm []) (boot [] 4242)))
     = [''Usage: stumfixer.py [start|stop]\<newline>'']
   \<and> fst (run [''stumfixer.py'', ''start'', ''now''] (calm []) (boot [] 4242)) = Exited 1
   \<and> err (snd (script [''stumfixer.py'', ''restart''] (calm []) (boot [] 4242)))
     = [''Unknown command '' @ CHR 0x27 # ''restart'' @ [CHR 0x27, CHR 0x0A] ]
   \<and> fst (run [''stumfixer.py'', ''restart''] (calm []) (boot [] 4242)) = Exited 1"
proof -
  have e: "err (boot [] 4242) = []" by (simp add: boot_def)
  from bad_command_line[of "[''stumfixer.py'']" "calm []" "boot [] 4242"]
    bad_command_line[of "[''stumfixer.py'', ''start'', ''now'']" "calm []" "boot [] 4242"]
    bad_command_line[of "[''stumfixer.py'', ''restart'']" "calm []" "boot [] 4242"]
  show ?thesis by (simp add: e repr_restart)
qed

text \<open>
  C8, as claimed, fails: for the one argument \<^verbatim>\<open>restart\<close> the error stream holds the
  \<^verbatim>\<open>Unknown command\<close> line and not the usage line.
\<close>

theorem unknown_command_counterexample:
  "err (snd (run [''stumfixer.py'', ''restart''] (calm []) (boot [] 4242)))
     = [''Unknown command '' @ CHR 0x27 # ''restart'' @ [CHR 0x27, CHR 0x0A] ]
   \<and> err (snd (run [''stumfixer.py'', ''restart''] (calm []) (boot [] 4242)))
     \<noteq> [''Usage: stumfixer.py [start|stop]\<newline>'']"
proof -
  have "script [''stumfixer.py'', ''restart''] (calm []) (boot [] 4242)
      = (Raised (SystemExit 1),
         (boot [] 4242)\<lparr>err := [''Unknown command '' @ CHR 0x27 # ''restart'' @ [CHR 0x27, CHR 0x0A] ]\<rparr>)"
    by (simp add: script_def print_stderr_def prog_defs repr_restart) (simp add: boot_def)
  then show ?thesis
    by (simp add: run_def py_exit_def Let_def run_callbacks_err)
qed

text \<open>
  C9. After a successful \<^verbatim>\<open>daemonize\<close> the process is the child of the second fork, and the
  pid file holds its id in decimal followed by a newline. Reading the file as text and
  applying \<^verbatim>\<open>int\<close> gives the id back, and \<^verbatim>\<open>stop\<close>, run by any process that finds this pid
  file, calls \<^verbatim>\<open>os.kill\<close> with exactly that id: the termination signal is delivered to it
  and to nothing else (when the id is that of a process, a positive C \<^verbatim>\<open>int\<close> other than
  the id of the process that runs \<^verbatim>\<open>stop\<close>, and the system accepts the call).
\<close>

theorem pidfile_round_trip:
  assumes "daemonize ev PIDFILE ''/dev/null'' LOGFILE LOGFILE w = (Inr (), wd)"
    and "files w2 PIDFILE = files wd PIDFILE"
    and "kill_accepts ev2 (pid wd)"
  shows "fork2 ev = ForkChild (pid wd)
       \<and> files wd PIDFILE = Some (str_int (pid wd) @ ''\<newline>'')
       \<and> read_text PIDFILE wd = (Inr (map of_char (str_int (pid wd)) @ [10]), wd)
       \<and> int_of_str (map of_char (str_int (pid wd)) @ [10]) = Inr (pid wd)
       \<and> stop ev2 w2 = os_kill (kill_accepts ev2) (ctime_kill ev2) (pid wd) SIGTERM w2
       \<and> (0 < pid wd \<and> pid wd \<le> 2147483647 \<and> pid w2 \<noteq> pid wd \<longrightarrow>
            stop ev2 w2 = (Returned, w2\<lparr>signalled := signalled w2 @ [(pid wd, SIGTERM)]\<rparr>))"
proof -
  from daemonize_success[OF assms(1)]
  have f: "fork2 ev = ForkChild (pid wd)"
    and c: "files wd PIDFILE = Some (str_int (pid wd) @ ''\<newline>'')"
    by auto
  have t: "read_text PIDFILE wd = (Inr (map of_char (str_int (pid wd)) @ [10]), wd)"
    by (rule read_text_str_int[OF c])
  have r: "int_of_str (map of_char (str_int (pid wd)) @ [10]) = Inr (pid wd)"
    by (rule int_of_str_str_int)
  from c assms(2) have c2: "files w2 PIDFILE = Some (str_int (pid wd) @ ''\<newline>'')" by simp
  have s: "stop ev2 w2 = os_kill (kill_accepts ev2) (ctime_kill ev2) (pid wd) SIGTERM w2"
    by (simp add: stop_def path_exists_def c2 read_text_str_int[OF c2] r)
  have k: "0 < pid wd \<and> pid wd \<le> 2147483647 \<and> pid w2 \<noteq> pid wd \<longrightarrow>
      stop ev2 w2 = (Returned, w2\<lparr>signalled := signalled w2 @ [(pid wd, SIGTERM)]\<rparr>)"
    using assms(3) by (auto simp: s os_kill_def signals_caller_def)
  from f c t r s k show ?thesis by simp
qed

theorem pidfile_round_trip_witness:
  "files daemon0 PIDFILE = Some ''4244\<newline>''
   \<and> int_of_str [52, 50, 52, 52, 10] = Inr 4244
   \<and> stop (calm []) (boot [(PIDFILE, ''4244\<newline>'')] 4300)
       = (Returned, (boot [(PIDFILE, ''4244\<newline>'')] 4300)\<lparr>signalled := [(4244, SIGTERM)]\<rparr>)"
proof -
  have p: "pid daemon0 = 4244"
    using daemonize_success[OF daemon0_ok] by (auto simp: calm_def)
  have f: "files daemon0 PIDFILE = Some ''4244\<newline>''"
    using daemonize_success[OF daemon0_ok] by (auto simp: p str_int_4244)
  have h2: "files (boot [(PIDFILE, ''4244\<newline>'')] 4300) PIDFILE = files daemon0 PIDFILE"
    by (simp add: f boot_def)
  have h3: "kill_accepts (calm []) (pid daemon0)"
    by (simp add: calm_def accept_all_def)
  have b: "signalled (boot [(PIDFILE, ''4244\<newline>'')] 4300) = []"
    "pid (boot [(PIDFILE, ''4244\<newline>'')] 4300) = 4300"
    by (simp_all add: boot_def)
  note rt = pidfile_round_trip[OF daemon0_ok h2 h3]
  from rt have "int_of_str (map of_char (str_int (pid daemon0)) @ [10]) = Inr (pid daemon0)"
    by blast
  then have i: "int_of_str [52, 50, 52, 52, 10] = Inr 4244"
    by (simp add: p str_int_4244)
  from rt have "0 < pid daemon0 \<and> pid daemon0 \<le> 2147483647
        \<and> pid (boot [(PIDFILE, ''4244\<newline>'')] 4300) \<noteq> pid daemon0 \<longrightarrow>
      stop (calm []) (boot [(PIDFILE, ''4244\<newline>'')] 4300)
        = (Returned, (boot [(PIDFILE, ''4244\<newline>'')] 4300)
             \<lparr>signalled := signalled (boot [(PIDFILE, ''4244\<newline>'')] 4300)
                            @ [(pid daemon0, SIGTERM)]\<rparr>)"
    by blast
  then have k: "stop (calm []) (boot [(PIDFILE, ''4244\<newline>'')] 4300)
      = (Returned, (boot [(PIDFILE, ''4244\<newline>'')] 4300)\<lparr>signalled := [(4244, SIGTERM)]\<rparr>)"
    by (simp add: p b)
  from f i k show ?thesis by simp
qed

text \<open>
  C10. When the output of \<^verbatim>\<open>pacmd list-cards\<close> yields an active profile and no product,
  \<^verbatim>\<open>get_audio_info\<close> returns the profile with the product \<^verbatim>\<open>None\<close>, and the next step of the
  loop, \<^verbatim>\<open>product.startswith\<close>, raises \<^verbatim>\<open>AttributeError\<close>, which nothing catches: the process
  ends with exit code 1.
\<close>

theorem missing_product_is_fatal:
  assumes "list_cards t = Started ls"
    and "read_lines ls None None = Inr (Some a, None)"
  shows "get_audio_info (list_cards t) w =
           (Inr (a, None), w\<lparr>spawned := spawned w @ [ [''pacmd'', ''list-cards''] ]\<rparr>)
       \<and> main_loop (Iteration t # es) w =
           (Raised AttributeError, w\<lparr>spawned := spawned w @ [ [''pacmd'', ''list-cards''] ]\<rparr>)
       \<and> fst (finish (main_loop (Iteration t # es) w)) = Exited 1"
proof -
  from assms have g: "get_audio_info (list_cards t) w =
      (Inr (a, None), w\<lparr>spawned := spawned w @ [ [''pacmd'', ''list-cards''] ]\<rparr>)"
    by (simp add: get_audio_info_Started)
  then have "iteration t w =
      (Inl AttributeError, w\<lparr>spawned := spawned w @ [ [''pacmd'', ''list-cards''] ]\<rparr>)"
    by (simp add: iteration_def prog_defs)
  with g show ?thesis by (simp add: fst_py_exit)
qed

theorem missing_product_is_fatal_witness:
  "get_audio_info (Started card_without_product) daemon0 =
     (Inr (''output:hdmi-stereo'', None),
      daemon0\<lparr>spawned := spawned daemon0 @ [ [''pacmd'', ''list-cards''] ]\<rparr>)
   \<and> fst (finish (main_loop [Iteration (pass card_without_product True)] daemon0)) = Exited 1"
proof -
  have l: "list_cards (pass card_without_product True) = Started card_without_product"
    by (simp add: pass_def)
  have r: "read_lines card_without_product None None = Inr (Some ''output:hdmi-stereo'', None)"
    by (simp add: card_without_product_def strip_def isspace_def startswith_def
          slice_from_to_last_def)
  from missing_product_is_fatal[OF l r, of daemon0 "[]"]
  show ?thesis by (simp add: l fst_py_exit del: main_loop.simps)
qed

end
